theory Spec2Isabelle
  imports Main
begin

section \<open>Python strings\<close>

text \<open>
  A Python \<open>str\<close> is modelled as a \<open>string\<close>. The model is exact on ASCII text; text
  outside ASCII is carried as its UTF-8 bytes (the fixed Chinese labels of the program are
  written that way), so on such text \<open>strip\<close>, \<open>lower\<close> and slicing see bytes where
  Python sees code points.
\<close>

definition py_isspace :: "char \<Rightarrow> bool" where
  "py_isspace c = (c \<in> set [CHR 0x09, CHR 0x0A, CHR 0x0B, CHR 0x0C, CHR 0x0D,
                              CHR 0x1C, CHR 0x1D, CHR 0x1E, CHR 0x1F, CHR 0x20])"

text \<open>\<open>s.strip()\<close>\<close>

definition py_strip :: "string \<Rightarrow> string" where
  "py_strip s = rev (dropWhile py_isspace (rev (dropWhile py_isspace s)))"

text \<open>\<open>sep.join(xs)\<close>\<close>

fun join :: "string \<Rightarrow> string list \<Rightarrow> string" where
  "join sep [] = []"
| "join sep [x] = x"
| "join sep (x # y # ys) = x @ sep @ join sep (y # ys)"

text \<open>\<open>s.split(c)\<close> for a separator of one character: never the empty list.\<close>

fun split_on :: "char \<Rightarrow> string \<Rightarrow> string list" where
  "split_on c [] = [[]]"
| "split_on c (x # xs) =
     (if x = c then [] # split_on c xs
      else (case split_on c xs of
              [] \<Rightarrow> [[x]]
            | w # ws \<Rightarrow> (x # w) # ws))"

text \<open>\<open>s.startswith(p)\<close>\<close>

definition startswith :: "string \<Rightarrow> string \<Rightarrow> bool" where
  "startswith s p = (take (length p) s = p)"

text \<open>\<open>s.replace(c, r)\<close> for a one-character pattern \<open>c\<close>.\<close>

definition replace_chr :: "char \<Rightarrow> string \<Rightarrow> string \<Rightarrow> string" where
  "replace_chr c r s = concat (map (\<lambda>x. if x = c then r else [x]) s)"

definition newline :: char where
  "newline = CHR 0x0A"

definition backslash :: char where
  "backslash = CHR 0x5C"

text \<open>Decimal text of an unbounded integer, as \<open>str(n)\<close> gives it.\<close>

definition digit_char :: "nat \<Rightarrow> char" where
  "digit_char d = char_of (48 + d)"

function show_nat :: "nat \<Rightarrow> string" where
  "show_nat n = (if n < 10 then [digit_char n] else show_nat (n div 10) @ [digit_char (n mod 10)])"
  by pat_completeness auto
termination
  by (relation "measure id") auto

declare show_nat.simps [simp del]

definition show_int :: "int \<Rightarrow> string" where
  "show_int i = (if i < 0 then CHR ''-'' # show_nat (nat (- i)) else show_nat (nat i))"

definition hex_digit :: "nat \<Rightarrow> char" where
  "hex_digit d = (if d < 10 then char_of (48 + d) else char_of (87 + d))"


section \<open>Python values read from JSON\<close>

text \<open>
  The values \<open>json.loads\<close> returns. An object is a \<open>dict\<close>: its entries in insertion
  order, looked up by key. A float is carried by the text \<open>repr\<close> prints for it, which is
  all the program ever observes of one (it is false exactly when that text is \<open>0.0\<close> or
  \<open>-0.0\<close>).
\<close>

datatype json =
    JNull
  | JBool bool
  | JInt int
  | JFloat string
  | JStr string
  | JArr "json list"
  | JObj "(string \<times> json) list"

text \<open>The exceptions the program can meet (all subclasses of \<open>Exception\<close>).\<close>

datatype error =
    AttributeError
  | TypeError
  | ValueError
  | KeyError
  | UnicodeEncodeError
  | OSError string
  | SMTPException string

text \<open>Sequencing of steps that may raise: the first exception ends the computation.\<close>

definition and_then :: "error + 'a \<Rightarrow> ('a \<Rightarrow> error + 'b) \<Rightarrow> error + 'b" where
  "and_then r f = (case r of Inl e \<Rightarrow> Inl e | Inr x \<Rightarrow> f x)"

text \<open>Truth value of a Python object (\<open>if x:\<close>, \<open>not x\<close>, \<open>x or y\<close>).\<close>

definition truthy :: "json \<Rightarrow> bool" where
  "truthy v = (case v of
      JNull \<Rightarrow> False
    | JBool b \<Rightarrow> b
    | JInt i \<Rightarrow> i \<noteq> 0
    | JFloat r \<Rightarrow> r \<noteq> ''0.0'' \<and> r \<noteq> ''-0.0''
    | JStr s \<Rightarrow> s \<noteq> []
    | JArr xs \<Rightarrow> xs \<noteq> []
    | JObj d \<Rightarrow> d \<noteq> [])"

text \<open>\<open>d.get(k, default)\<close> on a dict.\<close>

definition dict_get :: "(string \<times> json) list \<Rightarrow> string \<Rightarrow> json \<Rightarrow> json" where
  "dict_get d k dflt = (case map_of d k of None \<Rightarrow> dflt | Some v \<Rightarrow> v)"

text \<open>\<open>x.get(k, default)\<close> on any value: only a dict has the method.\<close>

definition py_get :: "json \<Rightarrow> string \<Rightarrow> json \<Rightarrow> error + json" where
  "py_get x k dflt = (case x of JObj d \<Rightarrow> Inr (dict_get d k dflt) | _ \<Rightarrow> Inl AttributeError)"

text \<open>
  \<open>for c in x\<close>: a list gives its elements, a string its characters, a dict its keys;
  nothing else can be iterated.
\<close>

definition py_iter :: "json \<Rightarrow> error + json list" where
  "py_iter x = (case x of
      JArr xs \<Rightarrow> Inr xs
    | JStr s \<Rightarrow> Inr (map (\<lambda>c. JStr [c]) s)
    | JObj d \<Rightarrow> Inr (map (\<lambda>kv. JStr (fst kv)) d)
    | _ \<Rightarrow> Inl TypeError)"

text \<open>\<open>x.strip()\<close> on any value: only a string has the method.\<close>

definition str_strip :: "json \<Rightarrow> error + string" where
  "str_strip x = (case x of JStr s \<Rightarrow> Inr (py_strip s) | _ \<Rightarrow> Inl AttributeError)"


subsection \<open>\<open>json.dumps(data, ensure_ascii=False, indent=2)\<close>\<close>

definition json_escape_char :: "char \<Rightarrow> string" where
  "json_escape_char c =
    (if c = CHR 0x22 then [backslash, CHR 0x22]
     else if c = backslash then [backslash, backslash]
     else if c = CHR 0x0A then [backslash, CHR ''n'']
     else if c = CHR 0x0D then [backslash, CHR ''r'']
     else if c = CHR 0x09 then [backslash, CHR ''t'']
     else if c = CHR 0x08 then [backslash, CHR ''b'']
     else if c = CHR 0x0C then [backslash, CHR ''f'']
     else if (of_char c :: nat) < 32
       then [backslash] @ ''u00'' @ [hex_digit (of_char c div 16), hex_digit (of_char c mod 16)]
     else [c])"

definition json_string :: "string \<Rightarrow> string" where
  "json_string s = [CHR 0x22] @ concat (map json_escape_char s) @ [CHR 0x22]"

definition json_float :: "string \<Rightarrow> string" where
  "json_float r =
    (if r = ''nan'' then ''NaN''
     else if r = ''inf'' then ''Infinity''
     else if r = ''-inf'' then ''-Infinity''
     else r)"

definition newline_indent :: "nat \<Rightarrow> string" where
  "newline_indent level = newline # replicate (2 * level) CHR '' ''"

fun json_dumps_at :: "nat \<Rightarrow> json \<Rightarrow> string" where
  "json_dumps_at level JNull = ''null''"
| "json_dumps_at level (JBool b) = (if b then ''true'' else ''false'')"
| "json_dumps_at level (JInt i) = show_int i"
| "json_dumps_at level (JFloat r) = json_float r"
| "json_dumps_at level (JStr s) = json_string s"
| "json_dumps_at level (JArr xs) =
     (if xs = [] then ''[]''
      else ''['' @ newline_indent (Suc level)
        @ join ('','' @ newline_indent (Suc level)) (map (json_dumps_at (Suc level)) xs)
        @ newline_indent level @ '']'')"
| "json_dumps_at level (JObj d) =
     (if d = [] then ''{}''
      else ''{'' @ newline_indent (Suc level)
        @ join ('','' @ newline_indent (Suc level))
            (map (\<lambda>kv. json_string (fst kv) @ '': '' @ json_dumps_at (Suc level) (snd kv)) d)
        @ newline_indent level @ ''}'')"

definition json_dumps :: "json \<Rightarrow> string" where
  "json_dumps data = json_dumps_at 0 data"


section \<open>Conversation extraction\<close>

text \<open>A conversation message: the dict \<open>{"role": ..., "text": ...}\<close> of the source.\<close>

record message =
  role :: string
  mtext :: string

text \<open>
  The fragment loop of \<open>extract_conversation\<close> for a transcript message (source lines
  90 to 94; \<open>format_message\<close> repeats it at lines 510 to 514): fragments that are dicts
  of type \<open>text\<close> give their trimmed text when it is not empty.
\<close>

fun text_fragments :: "json list \<Rightarrow> string list \<Rightarrow> error + string list" where
  "text_fragments [] texts = Inr texts"
| "text_fragments (c # cs) texts =
     (case c of
        JObj d \<Rightarrow>
          (if dict_get d ''type'' JNull = JStr ''text''
           then and_then (str_strip (dict_get d ''text'' (JStr [])))
                  (\<lambda>t. text_fragments cs (if t \<noteq> [] then texts @ [t] else texts))
           else text_fragments cs texts)
      | _ \<Rightarrow> text_fragments cs texts)"

text \<open>
  The texts of one transcript message (source lines 88 to 96): a dict gives the texts of
  its \<open>content\<close>, a string its trimmed self, anything else nothing.
\<close>

definition message_texts :: "json \<Rightarrow> error + string list" where
  "message_texts msg =
    (case msg of
       JObj d \<Rightarrow> and_then (py_iter (dict_get d ''content'' (JArr []))) (\<lambda>cs. text_fragments cs [])
     | JStr s \<Rightarrow> Inr (if py_strip s \<noteq> [] then [py_strip s] else [])
     | _ \<Rightarrow> Inr [])"

text \<open>The loop over the transcript (source lines 82 to 98).\<close>

fun claude_loop :: "json list \<Rightarrow> message list \<Rightarrow> error + message list" where
  "claude_loop [] messages = Inr messages"
| "claude_loop (item # items) messages =
     and_then (py_get item ''type'' (JStr [])) (\<lambda>msg_type.
       if msg_type \<noteq> JStr ''human'' \<and> msg_type \<noteq> JStr ''assistant''
       then claude_loop items messages
       else
         and_then (py_get item ''message'' (JObj [])) (\<lambda>msg.
         and_then (message_texts msg) (\<lambda>texts.
           claude_loop items
             (if texts \<noteq> []
              then messages @ [\<lparr>role = (if msg_type = JStr ''human'' then ''user'' else ''assistant''),
                                 mtext = join [newline, newline] texts\<rparr>]
              else messages))))"

text \<open>
  The fragment loop for a Codex content list (source lines 113 to 119 and again 133 to
  139): as above, and a bare string gives its trimmed self.
\<close>

fun codex_fragments :: "json list \<Rightarrow> string list \<Rightarrow> error + string list" where
  "codex_fragments [] texts = Inr texts"
| "codex_fragments (c # cs) texts =
     (case c of
        JObj d \<Rightarrow>
          (if dict_get d ''type'' JNull = JStr ''text''
           then and_then (str_strip (dict_get d ''text'' (JStr [])))
                  (\<lambda>t. codex_fragments cs (if t \<noteq> [] then texts @ [t] else texts))
           else codex_fragments cs texts)
      | JStr s \<Rightarrow> codex_fragments cs (if py_strip s \<noteq> [] then texts @ [py_strip s] else texts)
      | _ \<Rightarrow> codex_fragments cs texts)"

text \<open>
  What one Codex entry appends to \<open>messages\<close>. The source has this code twice: for each
  item of \<open>input-messages\<close> with role \<open>user\<close> (lines 104 to 121) and for
  \<open>last-assistant-message\<close> with role \<open>assistant\<close> (lines 125 to 141).
\<close>

definition codex_entry :: "string \<Rightarrow> json \<Rightarrow> message list \<Rightarrow> error + message list" where
  "codex_entry r item messages =
    (case item of
       JStr s \<Rightarrow> Inr (if py_strip s \<noteq> [] then messages @ [\<lparr>role = r, mtext = py_strip s\<rparr>]
                       else messages)
     | JObj d \<Rightarrow>
         (case dict_get d ''content'' (JStr []) of
            JStr s \<Rightarrow> Inr (if py_strip s \<noteq> [] then messages @ [\<lparr>role = r, mtext = py_strip s\<rparr>]
                            else messages)
          | JArr cs \<Rightarrow>
              and_then (codex_fragments cs []) (\<lambda>texts.
                Inr (if texts \<noteq> []
                     then messages @ [\<lparr>role = r, mtext = join [newline, newline] texts\<rparr>]
                     else messages))
          | _ \<Rightarrow> Inr messages)
     | _ \<Rightarrow> Inr messages)"

text \<open>The loop over \<open>input-messages\<close> (source lines 103 to 121).\<close>

fun codex_inputs :: "json list \<Rightarrow> message list \<Rightarrow> error + message list" where
  "codex_inputs [] messages = Inr messages"
| "codex_inputs (item # items) messages =
     and_then (codex_entry ''user'' item messages) (\<lambda>messages'. codex_inputs items messages')"

definition extract_conversation :: "json \<Rightarrow> string \<Rightarrow> error + message list" where
  "extract_conversation data source =
    (if source = ''claude-code'' then
       and_then (py_get data ''transcript'' (JArr [])) (\<lambda>transcript.
       and_then (py_iter transcript) (\<lambda>items.
         claude_loop items []))
     else if source = ''codex'' then
       and_then (py_get data ''input-messages'' (JArr [])) (\<lambda>input_msgs.
       and_then (py_iter input_msgs) (\<lambda>items.
       and_then (codex_inputs items []) (\<lambda>messages.
       and_then (py_get data ''last-assistant-message'' (JStr [])) (\<lambda>last_msg.
       and_then (codex_entry ''assistant'' last_msg messages) (\<lambda>messages'.
         Inr (if messages' = []
              then [\<lparr>role = ''assistant'', mtext = json_dumps data\<rparr>]
              else messages'))))))
     else Inr [\<lparr>role = ''assistant'', mtext = json_dumps data\<rparr>])"


section \<open>The transcript of a Claude Code payload, as the specification words it\<close>

text \<open>
  The specification: keep only items whose \<open>type\<close> is \<open>human\<close> or \<open>assistant\<close>,
  mapping to roles \<open>user\<close> and \<open>assistant\<close>; the \<open>message\<close> field is a structured object
  with a \<open>content\<close> list of fragments (keep fragments of type \<open>text\<close>, trim, join with
  blank-line separators) or a plain string (trimmed directly); whitespace-only fragments
  are discarded before joining; items yielding no non-empty text are skipped.
\<close>

definition is_text_fragment :: "json \<Rightarrow> bool" where
  "is_text_fragment c = (case c of JObj d \<Rightarrow> map_of d ''type'' = Some (JStr ''text'') | _ \<Rightarrow> False)"

definition fragment_text :: "json \<Rightarrow> string" where
  "fragment_text c = (case c of
      JObj d \<Rightarrow> (case map_of d ''text'' of Some (JStr s) \<Rightarrow> py_strip s | _ \<Rightarrow> [])
    | _ \<Rightarrow> [])"

definition derived_text :: "json \<Rightarrow> string" where
  "derived_text msg =
    (case msg of
       JObj d \<Rightarrow>
         (case map_of d ''content'' of
            Some (JArr cs) \<Rightarrow>
              join [newline, newline]
                (filter (\<lambda>t. t \<noteq> []) (map fragment_text (filter is_text_fragment cs)))
          | _ \<Rightarrow> [])
     | JStr s \<Rightarrow> py_strip s
     | _ \<Rightarrow> [])"

definition item_field :: "json \<Rightarrow> string \<Rightarrow> json" where
  "item_field item k = (case item of JObj d \<Rightarrow> dict_get d k JNull | _ \<Rightarrow> JNull)"

definition transcript_message :: "json \<Rightarrow> message option" where
  "transcript_message item =
    (let t = derived_text (item_field item ''message'') in
     if item_field item ''type'' = JStr ''human'' \<and> t \<noteq> []
       then Some \<lparr>role = ''user'', mtext = t\<rparr>
     else if item_field item ''type'' = JStr ''assistant'' \<and> t \<noteq> []
       then Some \<lparr>role = ''assistant'', mtext = t\<rparr>
     else None)"

text \<open>
  Well-formed transcript entries: an entry is an object; its \<open>message\<close>, when an object,
  has for \<open>content\<close> (when present) an array in which every fragment of type \<open>text\<close>
  carries a string (or no) \<open>text\<close>.
\<close>

definition wf_fragment :: "json \<Rightarrow> bool" where
  "wf_fragment c =
    (case c of
       JObj d \<Rightarrow>
         (case map_of d ''text'' of
            None \<Rightarrow> True
          | Some (JStr s) \<Rightarrow> True
          | Some _ \<Rightarrow> map_of d ''type'' \<noteq> Some (JStr ''text''))
     | _ \<Rightarrow> True)"

definition wf_message :: "json \<Rightarrow> bool" where
  "wf_message msg =
    (case msg of
       JObj d \<Rightarrow>
         (case map_of d ''content'' of
            None \<Rightarrow> True
          | Some (JArr cs) \<Rightarrow> list_all wf_fragment cs
          | Some _ \<Rightarrow> False)
     | _ \<Rightarrow> True)"

definition wf_entry :: "json \<Rightarrow> bool" where
  "wf_entry item =
    (case item of
       JObj d \<Rightarrow> (case map_of d ''message'' of None \<Rightarrow> True | Some msg \<Rightarrow> wf_message msg)
     | _ \<Rightarrow> False)"


section \<open>Sample payloads\<close>

definition claude_sample_items :: "json list" where
  "claude_sample_items =
     [JObj [(''type'', JStr ''human''), (''message'', JStr ''hi'')],
      JObj [(''type'', JStr ''system''), (''message'', JStr ''note'')],
      JObj [(''type'', JStr ''assistant''),
            (''message'', JObj [(''content'', JArr
               [JObj [(''type'', JStr ''text''), (''text'', JStr '' hello '')],
                JObj [(''type'', JStr ''tool_use''), (''name'', JStr ''ls'')],
                JObj [(''type'', JStr ''text''), (''text'', JStr ''done'')]])])],
      JObj [(''type'', JStr ''assistant''), (''message'', JStr ''  '')]]"

definition claude_sample :: "(string \<times> json) list" where
  "claude_sample = [(''transcript'', JArr claude_sample_items), (''cwd'', JStr ''/tmp'')]"


section \<open>The conversation of a Codex payload, as the specification words it\<close>

text \<open>
  The specification: all entries of \<open>input-messages\<close> (each either a bare string or an
  object with a \<open>content\<close> field, itself either a string or a list of text fragments)
  become \<open>user\<close> messages, in original order; then an \<open>assistant\<close> message is derived
  from \<open>last-assistant-message\<close> (string, or object with string or list \<open>content\<close>); if
  after this no messages exist at all, fall back to a single \<open>assistant\<close> message
  containing the full payload rendered as pretty-printed JSON.
\<close>

definition codex_fragment_text :: "json \<Rightarrow> string" where
  "codex_fragment_text c =
    (case c of
       JObj d \<Rightarrow>
         (if map_of d ''type'' = Some (JStr ''text'')
          then (case map_of d ''text'' of Some (JStr s) \<Rightarrow> py_strip s | _ \<Rightarrow> [])
          else [])
     | JStr s \<Rightarrow> py_strip s
     | _ \<Rightarrow> [])"

definition codex_text :: "json \<Rightarrow> string" where
  "codex_text item =
    (case item of
       JStr s \<Rightarrow> py_strip s
     | JObj d \<Rightarrow>
         (case map_of d ''content'' of
            Some (JStr s) \<Rightarrow> py_strip s
          | Some (JArr cs) \<Rightarrow>
              join [newline, newline] (filter (\<lambda>t. t \<noteq> []) (map codex_fragment_text cs))
          | _ \<Rightarrow> [])
     | _ \<Rightarrow> [])"

definition codex_message :: "string \<Rightarrow> json \<Rightarrow> message list" where
  "codex_message r item =
    (if codex_text item \<noteq> [] then [\<lparr>role = r, mtext = codex_text item\<rparr>] else [])"

definition codex_conversation :: "(string \<times> json) list \<Rightarrow> json list \<Rightarrow> message list" where
  "codex_conversation d items =
    (let users = concat (map (codex_message ''user'') items);
         reply = codex_message ''assistant'' (dict_get d ''last-assistant-message'' (JStr []))
     in if users = [] \<and> reply = []
        then [\<lparr>role = ''assistant'', mtext = json_dumps (JObj d)\<rparr>]
        else users @ reply)"

definition wf_codex_entry :: "json \<Rightarrow> bool" where
  "wf_codex_entry item =
    (case item of
       JObj d \<Rightarrow> (case map_of d ''content'' of Some (JArr cs) \<Rightarrow> list_all wf_fragment cs | _ \<Rightarrow> True)
     | _ \<Rightarrow> True)"

definition codex_sample_items :: "json list" where
  "codex_sample_items =
     [JStr ''fix bug'',
      JObj [(''role'', JStr ''user''),
            (''content'', JArr [JObj [(''type'', JStr ''text''), (''text'', JStr '' and test '')],
                                JStr ''  ''])],
      JStr ''   '',
      JInt 7]"

definition codex_sample :: "(string \<times> json) list" where
  "codex_sample =
     [(''type'', JStr ''agent-turn-complete''),
      (''input-messages'', JArr codex_sample_items),
      (''last-assistant-message'', JStr ''done'')]"

definition codex_no_reply :: "(string \<times> json) list" where
  "codex_no_reply = [(''type'', JStr ''agent-turn-complete''), (''input-messages'', JArr [JStr ''hi''])]"

definition assistant_messages :: "message list \<Rightarrow> message list" where
  "assistant_messages msgs = filter (\<lambda>m. role m = ''assistant'') msgs"


section \<open>HTML rendering of a message text\<close>

text \<open>\<open>_escape_html\<close>: four replacements, in the source's order.\<close>

definition escape_html :: "string \<Rightarrow> string" where
  \<open>escape_html text =
     replace_chr (CHR 0x22) ''&quot;''
       (replace_chr CHR ''>'' ''&gt;''
         (replace_chr CHR ''<'' ''&lt;''
           (replace_chr CHR ''&'' ''&amp;'' text)))\<close>

text \<open>
  \<open>re.sub(r"\*\*(.+?)\*\*", r"<strong>\1</strong>", s)\<close>. \<open>find_stars s\<close> looks for the
  first \<open>**\<close> of \<open>s\<close> with no newline before it and gives the text before and after
  it; the lazy group \<open>(.+?)\<close> is one character that is not a newline, followed by the
  text before the next \<open>**\<close>.
\<close>

fun find_stars :: "string \<Rightarrow> (string \<times> string) option" where
  "find_stars (a # b # s) =
     (if a = CHR ''*'' \<and> b = CHR ''*'' then Some ([], s)
      else if a = newline then None
      else (case find_stars (b # s) of
              None \<Rightarrow> None
            | Some (mid, rest) \<Rightarrow> Some (a # mid, rest)))"
| "find_stars s = None"

definition bold_match :: "string \<Rightarrow> (string \<times> string) option" where
  "bold_match s =
    (case s of
       a # b # c # r \<Rightarrow>
         (if a = CHR ''*'' \<and> b = CHR ''*'' \<and> c \<noteq> newline
          then (case find_stars r of
                  None \<Rightarrow> None
                | Some (mid, rest) \<Rightarrow> Some (c # mid, rest))
          else None)
     | _ \<Rightarrow> None)"

lemma find_stars_shorter: "find_stars s = Some (mid, rest) \<Longrightarrow> length rest < length s"
  by (induction s arbitrary: mid rule: find_stars.induct) (auto split: if_splits option.splits)

lemma bold_match_shorter: "bold_match s = Some (inner, rest) \<Longrightarrow> length rest < length s"
  by (auto simp: bold_match_def split: list.splits if_splits option.splits
      dest!: find_stars_shorter)

function bold_sub :: "string \<Rightarrow> string" where
  "bold_sub [] = []"
| "bold_sub (a # s) =
     (case bold_match (a # s) of
        Some (inner, rest) \<Rightarrow> ''<strong>'' @ inner @ ''</strong>'' @ bold_sub rest
      | None \<Rightarrow> a # bold_sub s)"
  by pat_completeness auto
termination
  by (relation "measure length") (auto dest: bold_match_shorter)

definition pre_open :: string where
  \<open>pre_open =
     ''<pre style="margin:8px 0;padding:12px 16px;background:#1F2937;color:#E''
     @ ''5E7EB;font-size:12px;line-height:1.6;font-family:\'SF Mono\',\'Fira Co''
     @ ''de\',Consolas,monospace;border-radius:6px;white-space:pre-wrap;word-br''
     @ ''eak:break-all;overflow:hidden;">''\<close>

definition pre_block :: "string list \<Rightarrow> string" where
  "pre_block code_lines = pre_open @ escape_html (join [newline] code_lines) @ ''</pre>''"

definition render_line :: "string \<Rightarrow> string" where
  "render_line line =
    (let escaped = bold_sub (escape_html line)
     in if py_strip escaped \<noteq> [] then escaped @ ''<br>'' else ''<br>'')"

definition is_fence :: "string \<Rightarrow> bool" where
  "is_fence line = startswith (py_strip line) ''```''"

text \<open>
  The loop of \<open>_text_to_html\<close> (source lines 162 to 192) over the state
  \<open>(html_parts, in_code, code_lines)\<close>.
\<close>

fun html_lines ::
  "string list \<Rightarrow> string list \<Rightarrow> bool \<Rightarrow> string list \<Rightarrow> string list \<times> bool \<times> string list" where
  "html_lines [] html_parts in_code code_lines = (html_parts, in_code, code_lines)"
| "html_lines (line # lines) html_parts in_code code_lines =
     (if is_fence line then
        (if in_code then html_lines lines (html_parts @ [pre_block code_lines]) False []
         else html_lines lines html_parts True code_lines)
      else if in_code then html_lines lines html_parts in_code (code_lines @ [line])
      else html_lines lines (html_parts @ [render_line line]) in_code code_lines)"

definition text_to_html :: "string \<Rightarrow> string" where
  "text_to_html text =
    (case html_lines (split_on newline text) [] False [] of
       (html_parts, in_code, code_lines) \<Rightarrow>
         join [newline]
           (if in_code \<and> code_lines \<noteq> [] then html_parts @ [pre_block code_lines]
            else html_parts))"

definition fence_sample :: string where
  "fence_sample = ''see **this**'' @ [newline] @ '' ```py'' @ [newline] @ ''x < 1'' @ [newline] @ '' y''"


section \<open>\<open>str()\<close> of a value\<close>

text \<open>
  What an f-string or \<open>str()\<close> prints: a string is printed as it is, every other value
  by its \<open>repr\<close>, in which strings are quoted.
\<close>

definition repr_char :: "char \<Rightarrow> char \<Rightarrow> string" where
  "repr_char q c =
    (if c = q \<or> c = backslash then [backslash, c]
     else if c = CHR 0x09 then [backslash, CHR ''t'']
     else if c = CHR 0x0A then [backslash, CHR ''n'']
     else if c = CHR 0x0D then [backslash, CHR ''r'']
     else if (of_char c :: nat) < 32 \<or> c = CHR 0x7F
       then [backslash, CHR ''x'', hex_digit (of_char c div 16), hex_digit (of_char c mod 16)]
     else [c])"

definition repr_str :: "string \<Rightarrow> string" where
  "repr_str s =
    (let q = (if CHR 0x27 \<in> set s \<and> CHR 0x22 \<notin> set s then CHR 0x22 else CHR 0x27)
     in [q] @ concat (map (repr_char q) s) @ [q])"

fun py_repr :: "json \<Rightarrow> string" where
  "py_repr JNull = ''None''"
| "py_repr (JBool b) = (if b then ''True'' else ''False'')"
| "py_repr (JInt i) = show_int i"
| "py_repr (JFloat r) = r"
| "py_repr (JStr s) = repr_str s"
| "py_repr (JArr xs) = ''['' @ join '', '' (map py_repr xs) @ '']''"
| "py_repr (JObj d) =
     ''{'' @ join '', '' (map (\<lambda>kv. repr_str (fst kv) @ '': '' @ py_repr (snd kv)) d) @ ''}''"

definition py_str :: "json \<Rightarrow> string" where
  "py_str v = (case v of JStr s \<Rightarrow> s | _ \<Rightarrow> py_repr v)"

text \<open>
  \<open>x[:n]\<close>: the first \<open>n\<close> characters of a string or elements of a list. Nothing else
  can be sliced: \<open>None\<close>, a number and a boolean raise \<open>TypeError\<close>, and so does a dict
  (from Python 3.12 on a dict raises \<open>KeyError\<close> instead; the model keeps one error).
\<close>

definition py_slice :: "json \<Rightarrow> nat \<Rightarrow> error + json" where
  "py_slice x n =
    (case x of
       JStr s \<Rightarrow> Inr (JStr (take n s))
     | JArr xs \<Rightarrow> Inr (JArr (take n xs))
     | _ \<Rightarrow> Inl TypeError)"


section \<open>The plain-text summary\<close>

text \<open>The Chinese labels of the templates, as UTF-8 bytes.\<close>

definition label_time :: string where
  \<open>label_time = ''**'' @ [CHR 0xE6, CHR 0x97, CHR 0xB6, CHR 0xE9, CHR 0x97, CHR 0xB4] @ ''**''\<close>

definition label_cwd :: string where
  \<open>label_cwd = ''**'' @ [CHR 0xE5, CHR 0xB7, CHR 0xA5, CHR 0xE4, CHR 0xBD, CHR 0x9C, CHR 0xE7, CHR 0x9B, CHR 0xAE, CHR 0xE5, CHR 0xBD, CHR 0x95] @ ''**''\<close>

definition label_session :: string where
  \<open>label_session = ''**'' @ [CHR 0xE4, CHR 0xBC, CHR 0x9A, CHR 0xE8, CHR 0xAF, CHR 0x9D]
       @ ''ID'' @ ''**''\<close>

definition label_user :: string where
  \<open>label_user = ''**'' @ [CHR 0xE7, CHR 0x94, CHR 0xA8, CHR 0xE6, CHR 0x88, CHR 0xB7, CHR 0xE6, CHR 0x8C, CHR 0x87, CHR 0xE4, CHR 0xBB, CHR 0xA4] @ ''**''\<close>

definition label_reply :: string where
  \<open>label_reply = ''**'' @ ''AI ''
       @ [CHR 0xE5, CHR 0x9B, CHR 0x9E, CHR 0xE5, CHR 0xA4, CHR 0x8D] @ ''**''\<close>

definition label_event :: string where
  \<open>label_event = ''**'' @ [CHR 0xE4, CHR 0xBA, CHR 0x8B, CHR 0xE4, CHR 0xBB, CHR 0xB6, CHR 0xE7, CHR 0xB1, CHR 0xBB, CHR 0xE5, CHR 0x9E, CHR 0x8B] @ ''**''\<close>

definition label_source :: string where
  \<open>label_source = ''**'' @ [CHR 0xE6, CHR 0x9D, CHR 0xA5, CHR 0xE6, CHR 0xBA, CHR 0x90] @ ''**''\<close>

definition label_data :: string where
  \<open>label_data = ''**'' @ [CHR 0xE6, CHR 0x95, CHR 0xB0, CHR 0xE6, CHR 0x8D, CHR 0xAE] @ ''**''\<close>

definition no_content :: string where
  \<open>no_content = ''(''
       @ [CHR 0xE6, CHR 0x97, CHR 0xA0, CHR 0xE5, CHR 0x86, CHR 0x85, CHR 0xE5, CHR 0xAE, CHR 0xB9]
       @ '')''\<close>

definition task_done :: string where
  \<open>task_done = [CHR 0xE4, CHR 0xBB, CHR 0xBB, CHR 0xE5, CHR 0x8A, CHR 0xA1, CHR 0xE5, CHR 0xAE, CHR 0x8C, CHR 0xE6, CHR 0x88, CHR 0x90]\<close>

definition claude_title :: string where
  "claude_title = ''Claude Code '' @ task_done"

definition codex_title :: string where
  "codex_title = ''Codex '' @ task_done"

definition other_title :: string where
  "other_title = ''AI '' @ task_done"

text \<open>The three f-strings of \<open>format_message\<close> (source lines 526, 560 and 572).\<close>

definition claude_content :: "string \<Rightarrow> string \<Rightarrow> string \<Rightarrow> string \<Rightarrow> string \<Rightarrow> string" where
  "claude_content now cwd session last_user_msg last_ai_msg =
     label_time @ '': '' @ now @ [newline]
     @ label_cwd @ '': '' @ cwd @ [newline]
     @ label_session @ '': '' @ session @ ''...'' @ [newline, newline]
     @ label_user @ '':'' @ [newline]
     @ last_user_msg @ [newline, newline]
     @ label_reply @ '':'' @ [newline]
     @ last_ai_msg"

definition codex_content :: "string \<Rightarrow> string \<Rightarrow> string \<Rightarrow> string \<Rightarrow> string \<Rightarrow> string" where
  "codex_content now cwd event_type user_msg ai_msg =
     label_time @ '': '' @ now @ [newline]
     @ label_cwd @ '': '' @ cwd @ [newline]
     @ label_event @ '': '' @ event_type @ [newline, newline]
     @ label_user @ '':'' @ [newline]
     @ user_msg @ [newline, newline]
     @ label_reply @ '':'' @ [newline]
     @ ai_msg"

definition other_content :: "string \<Rightarrow> string \<Rightarrow> string \<Rightarrow> string" where
  "other_content now source dumped =
     label_time @ '': '' @ now @ [newline]
     @ label_source @ '': '' @ source @ [newline, newline]
     @ label_data @ '':'' @ [newline]
     @ ''```json'' @ [newline]
     @ dumped @ [newline]
     @ ''```''"

text \<open>\<open>x or '(...)'\<close> on a string.\<close>

definition or_no_content :: "string \<Rightarrow> string" where
  "or_no_content t = (if t \<noteq> [] then t else no_content)"

text \<open>
  The loop over the transcript (source lines 505 to 523) over the state
  \<open>(last_user_msg, last_ai_msg)\<close>. The texts of a message are computed by the same code
  as in \<open>extract_conversation\<close>, here for every item whatever its type.
\<close>

fun last_turns :: "json list \<Rightarrow> string \<Rightarrow> string \<Rightarrow> error + string \<times> string" where
  "last_turns [] last_user_msg last_ai_msg = Inr (last_user_msg, last_ai_msg)"
| "last_turns (item # items) last_user_msg last_ai_msg =
     and_then (py_get item ''type'' (JStr [])) (\<lambda>msg_type.
     and_then (py_get item ''message'' (JObj [])) (\<lambda>msg.
     and_then (message_texts msg) (\<lambda>texts.
       if join [newline, newline] texts \<noteq> [] then
         (if msg_type = JStr ''human''
            then last_turns items (join [newline, newline] texts) last_ai_msg
          else if msg_type = JStr ''assistant''
            then last_turns items last_user_msg (join [newline, newline] texts)
          else last_turns items last_user_msg last_ai_msg)
       else last_turns items last_user_msg last_ai_msg)))"

text \<open>The loop over \<open>input-messages\<close> (source lines 542 to 548).\<close>

fun codex_user_texts :: "json list \<Rightarrow> string list \<Rightarrow> string list" where
  "codex_user_texts [] user_texts = user_texts"
| "codex_user_texts (item # items) user_texts =
     (case item of
        JStr s \<Rightarrow> codex_user_texts items
                    (if py_strip s \<noteq> [] then user_texts @ [py_strip s] else user_texts)
      | JObj d \<Rightarrow>
          (case dict_get d ''content'' (JStr []) of
             JStr s \<Rightarrow> codex_user_texts items
                         (if py_strip s \<noteq> [] then user_texts @ [py_strip s] else user_texts)
           | _ \<Rightarrow> codex_user_texts items user_texts)
      | _ \<Rightarrow> codex_user_texts items user_texts)"

text \<open>The reply of a Codex payload (source lines 552 to 558).\<close>

definition codex_ai_msg :: "json \<Rightarrow> string" where
  "codex_ai_msg last_msg =
    (case last_msg of
       JStr s \<Rightarrow> or_no_content (py_strip s)
     | JObj d \<Rightarrow> or_no_content (py_strip (py_str (dict_get d ''content'' (JStr []))))
     | _ \<Rightarrow> no_content)"

text \<open>
  \<open>format_message\<close>. The time stamp \<open>datetime.now()\<close> formats to is the parameter
  \<open>now\<close>. The event type is the value the parser read from the payload.
\<close>

definition format_message :: "string \<Rightarrow> string \<Rightarrow> json \<Rightarrow> json \<Rightarrow> error + string \<times> string" where
  "format_message now source event_type data =
    (if source = ''claude-code'' then
       and_then (py_get data ''transcript'' (JArr [])) (\<lambda>transcript.
       and_then (py_iter transcript) (\<lambda>items.
       and_then (last_turns items [] []) (\<lambda>(last_user_msg, last_ai_msg).
       and_then (py_get data ''cwd'' (JStr ''N/A'')) (\<lambda>cwd.
       and_then (py_get data ''session_id'' (JStr ''N/A'')) (\<lambda>session_id.
       and_then (py_slice session_id 8) (\<lambda>session.
         Inr (claude_title,
              claude_content now (py_str cwd) (py_str session)
                (or_no_content last_user_msg) (or_no_content last_ai_msg))))))))
     else if source = ''codex'' then
       and_then (py_get data ''input-messages'' (JArr [])) (\<lambda>input_msgs.
       and_then (py_iter input_msgs) (\<lambda>items.
       and_then (py_get data ''last-assistant-message'' (JStr [])) (\<lambda>last_msg.
       and_then (py_get data ''cwd'' (JStr ''N/A'')) (\<lambda>cwd.
         Inr (codex_title,
              codex_content now (py_str cwd) (py_str event_type)
                (if codex_user_texts items [] \<noteq> []
                 then join [newline] (codex_user_texts items []) else no_content)
                (codex_ai_msg last_msg))))))
     else Inr (other_title, other_content now source (json_dumps data)))"

definition sample_now :: string where
  "sample_now = ''2026-01-02 03:04:05''"


section \<open>The turns of the summary, as the specification words them\<close>

text \<open>
  The specification: the plain-text summary shows the last user instruction and the last
  assistant reply, the final occurrence of each role. \<open>last_text r msgs\<close> is the text of
  the last message of role \<open>r\<close> in a conversation (empty when there is none).
\<close>

definition last_text :: "string \<Rightarrow> message list \<Rightarrow> string" where
  "last_text r msgs =
    (case filter (\<lambda>m. role m = r) msgs of
       [] \<Rightarrow> []
     | m # ms \<Rightarrow> mtext (last (m # ms)))"





section \<open>Configuration\<close>

text \<open>
  The configuration is a dict of strings; \<open>os.environ\<close> is the parameter \<open>environ\<close> of
  every function that reads it.
\<close>

definition get_config ::
  "(string \<rightharpoonup> string) \<Rightarrow> (string \<rightharpoonup> string) \<Rightarrow> string \<Rightarrow> string \<Rightarrow> string" where
  "get_config environ env key dflt =
    (case environ key of
       Some v \<Rightarrow> v
     | None \<Rightarrow> (case env key of Some v \<Rightarrow> v | None \<Rightarrow> dflt))"

text \<open>\<open>s.lower()\<close>\<close>

definition py_lower :: "string \<Rightarrow> string" where
  "py_lower s =
     map (\<lambda>c. if (65::nat) \<le> of_char c \<and> (of_char c :: nat) \<le> 90
              then char_of ((of_char c :: nat) + 32) else c) s"




text \<open>
  \<open>int(s)\<close> on a string: surrounding whitespace, a sign, decimal digits with single
  underscores between them; anything else, and a number of more than 4300 digits, raises
  \<open>ValueError\<close>.
\<close>

definition is_digit :: "char \<Rightarrow> bool" where
  "is_digit c = ((48::nat) \<le> of_char c \<and> (of_char c :: nat) \<le> 57)"

fun digits_ok :: "string \<Rightarrow> bool" where
  "digits_ok [] = False"
| "digits_ok [c] = is_digit c"
| "digits_ok (c # u # s) =
     (is_digit c \<and> (if u = CHR ''_'' then digits_ok s else digits_ok (u # s)))"

definition digits_value :: "string \<Rightarrow> nat" where
  "digits_value s = foldl (\<lambda>n c. 10 * n + (of_char c - 48)) 0 (filter is_digit s)"

definition py_int :: "string \<Rightarrow> error + int" where
  "py_int s =
    (let t = py_strip s;
         negative = (t \<noteq> [] \<and> hd t = CHR ''-'');
         body = (if t \<noteq> [] \<and> (hd t = CHR ''-'' \<or> hd t = CHR ''+'') then tl t else t)
     in if digits_ok body \<and> length (filter is_digit body) \<le> 4300
        then Inr (if negative then - int (digits_value body) else int (digits_value body))
        else Inl ValueError)"


section \<open>The HTML mail\<close>

text \<open>\<open>"needle" in hay\<close> on strings.\<close>

fun contains :: "string \<Rightarrow> string \<Rightarrow> bool" where
  "contains [] needle = (needle = [])"
| "contains (c # hay) needle = (startswith (c # hay) needle \<or> contains hay needle)"

text \<open>The palette: accent, light accent, dark accent (source lines 213 to 224).\<close>

definition theme :: "string \<Rightarrow> string \<Rightarrow> string \<times> string \<times> string" where
  "theme title source =
    (if contains title ''Claude'' \<or> source = ''claude-code''
       then (''#D97706'', ''#FEF3C7'', ''#92400E'')
     else if contains title ''Codex'' \<or> source = ''codex''
       then (''#059669'', ''#D1FAE5'', ''#065F46'')
     else (''#2563EB'', ''#DBEAFE'', ''#1E40AF''))"

text \<open>\<open>data.get(k, "") if isinstance(data, dict) else ""\<close>\<close>

definition dict_field :: "json \<Rightarrow> string \<Rightarrow> json" where
  "dict_field data k = (case data of JObj d \<Rightarrow> dict_get d k (JStr []) | _ \<Rightarrow> JStr [])"

text \<open>\<open>s[:n] + "..." if len(s) > n else s\<close>\<close>

definition truncated :: "nat \<Rightarrow> string \<Rightarrow> string" where
  "truncated n s = (if length s > n then take n s @ ''...'' else s)"

text \<open>The labels of the metadata table, as UTF-8 bytes.\<close>

definition meta_label_time :: string where
  \<open>meta_label_time = [CHR 0xE5, CHR 0xAE, CHR 0x8C, CHR 0xE6, CHR 0x88, CHR 0x90, CHR 0xE6, CHR 0x97, CHR 0xB6, CHR 0xE9, CHR 0x97, CHR 0xB4]\<close>

definition meta_label_cwd :: string where
  \<open>meta_label_cwd = [CHR 0xE5, CHR 0xB7, CHR 0xA5, CHR 0xE4, CHR 0xBD, CHR 0x9C, CHR 0xE7, CHR 0x9B, CHR 0xAE, CHR 0xE5, CHR 0xBD, CHR 0x95]\<close>

definition meta_label_session :: string where
  \<open>meta_label_session = [CHR 0xE4, CHR 0xBC, CHR 0x9A, CHR 0xE8, CHR 0xAF, CHR 0x9D]
       @ ''ID''\<close>

definition meta_label_event :: string where
  \<open>meta_label_event = [CHR 0xE4, CHR 0xBA, CHR 0x8B, CHR 0xE4, CHR 0xBB, CHR 0xB6, CHR 0xE7, CHR 0xB1, CHR 0xBB, CHR 0xE5, CHR 0x9E, CHR 0x8B]\<close>

definition meta_label_thread :: string where
  \<open>meta_label_thread = [CHR 0xE7, CHR 0xBA, CHR 0xBF, CHR 0xE7, CHR 0xA8, CHR 0x8B]
       @ ''ID''\<close>

definition meta_label_turn :: string where
  \<open>meta_label_turn = [CHR 0xE8, CHR 0xBD, CHR 0xAE, CHR 0xE6, CHR 0xAC, CHR 0xA1]
       @ ''ID''\<close>

text \<open>The rows of the metadata table (source lines 237 to 250).\<close>

definition meta_rows :: "string \<Rightarrow> json \<Rightarrow> (string \<times> string) list" where
  "meta_rows now data =
     [(meta_label_time, now)]
     @ (if truthy (dict_field data ''cwd'')
        then [(meta_label_cwd, py_str (dict_field data ''cwd''))] else [])
     @ (if truthy (dict_field data ''session_id'')
        then [(meta_label_session, truncated 12 (py_str (dict_field data ''session_id'')))] else [])
     @ (if truthy (dict_field data ''type'')
        then [(meta_label_event, py_str (dict_field data ''type''))] else [])
     @ (if truthy (dict_field data ''thread-id'')
        then [(meta_label_thread, truncated 16 (py_str (dict_field data ''thread-id'')))] else [])
     @ (if truthy (dict_field data ''turn-id'')
        then [(meta_label_turn, truncated 16 (py_str (dict_field data ''turn-id'')))] else [])"

text \<open>One row of the table (source lines 254 to 263).\<close>

definition meta_row :: "string \<times> string \<Rightarrow> string" where
  \<open>meta_row row =
     ''<tr><td style="padding:8px 14px;color:#6B7280;font-size:13px;white-spa''
       @ ''ce:nowrap;vertical-align:top;border-bottom:1px solid #F3F4F6;">''
     @ escape_html (fst row)
     @ ''</td><td style="padding:8px 14px;color:#111827;font-size:13px;word-bre''
       @ ''ak:break-all;border-bottom:1px solid #F3F4F6;">''
     @ escape_html (snd row)
     @ ''</td></tr>''\<close>

text \<open>The card of one message (source lines 271 to 298).\<close>

definition message_card_html ::
  "string \<Rightarrow> string \<Rightarrow> string \<Rightarrow> string \<Rightarrow> string \<Rightarrow> string" where
  \<open>message_card_html role_label role_color bg_color border_color content_html =
     ''<tr><td style="padding:0 24px 12px;"><table width="100%" cellpadding="''
       @ ''0" cellspacing="0" style="border-collapse:collapse;"><tr><td style="pa''
       @ ''dding:14px 16px;background:''
     @ bg_color
     @ '';border-left:3px solid ''
     @ border_color
     @ '';border-radius:4px;"><div style="font-size:11px;font-weight:700;color:''
     @ role_color
     @ '';text-transform:uppercase;letter-spacing:0.5px;margin-bottom:8px;">''
     @ role_label
     @ ''</div><div style="font-size:14px;color:#1F2937;line-height:1.7;">''
     @ content_html
     @ ''</div></td></tr></table></td></tr>''\<close>

definition message_card :: "message \<Rightarrow> string" where
  "message_card msg =
    (if role msg = ''user''
     then message_card_html ''USER'' ''#4F46E5'' ''#EEF2FF'' ''#6366F1'' (text_to_html (mtext msg))
     else message_card_html ''AI ASSISTANT'' ''#047857'' ''#F0FDF4'' ''#10B981''
            (text_to_html (mtext msg)))"

text \<open>The block shown when no message was extracted (source lines 301 to 314).\<close>

definition raw_block :: "string \<Rightarrow> string" where
  \<open>raw_block raw_text =
     ''<tr><td style="padding:0 24px 16px;"><pre style="margin:0;padding:16px''
       @ '';background:#1F2937;color:#E5E7EB;font-size:12px;line-height:1.6;font-''
       @ ''family:\'SF Mono\',\'Fira Code\',Consolas,monospace;border-radius:8px;''
       @ ''white-space:pre-wrap;word-break:break-all;">''
     @ raw_text
     @ ''</pre></td></tr>''\<close>

text \<open>The document template (source lines 316 to 409), cut at its seven holes.\<close>

definition html_doc_head :: string where
  \<open>html_doc_head =
     ''<!DOCTYPE html>\<newline><html lang="zh-CN">\<newline><head><meta char''
     @ ''set="utf-8"><meta name="viewport" content="width=device-width,initial-''
     @ ''scale=1.0"></head>\<newline><body style="margin:0;padding:0;background''
     @ ''-color:#F3F4F6;\<newline>             font-family:-apple-system,BlinkM''
     @ ''acSystemFont,\'Segoe UI\',Roboto,\<newline>             \'Helvetica Ne''
     @ ''ue\',Arial,sans-serif;">\<newline>  <table width="100%" cellpadding="0''
     @ ''" cellspacing="0"\<newline>         style="border-collapse:collapse;ba''
     @ ''ckground:#F3F4F6;">\<newline>    <tr><td align="center" style="padding''
     @ '':32px 16px;">\<newline>\<newline>      <!-- ''
     @ [CHR 0xE4, CHR 0xB8, CHR 0xBB, CHR 0xE5, CHR 0x8D, CHR 0xA1, CHR 0xE7, CHR 0x89, CHR 0x87]
     @ '' -->\<newline>      <table width="640" cellpadding="0" cellspacing="0"''
     @ ''\<newline>             style="border-collapse:collapse;background:#FFF''
     @ ''FFF;\<newline>                    border-radius:12px;overflow:hidden;''
     @ ''\<newline>                    box-shadow:0 4px 24px rgba(0,0,0,0.08);"''
     @ ''>\<newline>\<newline>        <!-- ''
     @ [CHR 0xE9, CHR 0xA1, CHR 0xB6, CHR 0xE9, CHR 0x83, CHR 0xA8, CHR 0xE8, CHR 0x89, CHR 0xB2, CHR 0xE6, CHR 0x9D, CHR 0xA1]
     @ '' -->\<newline>        <tr><td style="height:4px;background:''\<close>

definition html_doc_title :: string where
  \<open>html_doc_title =
     '';\<newline>                       font-size:0;line-height:0;">&nbsp;</''
     @ ''td></tr>\<newline>\<newline>        <!-- ''
     @ [CHR 0xE6, CHR 0xA0, CHR 0x87, CHR 0xE9, CHR 0xA2, CHR 0x98, CHR 0xE5, CHR 0x8C, CHR 0xBA]
     @ '' -->\<newline>        <tr><td style="padding:24px 24px 16px;">''
     @ ''\<newline>          <table width="100%" cellpadding="0" cellspacing="0''
     @ ''"\<newline>                 style="border-collapse:collapse;">''
     @ ''\<newline>            <tr>\<newline>              <td style="vertical-''
     @ ''align:middle;">\<newline>                <span style="font-size:20px;f''
     @ ''ont-weight:700;color:#111827;">\<newline>                  ''\<close>

definition html_doc_badge :: string where
  \<open>html_doc_badge =
     ''</span>\<newline>              </td>\<newline>              <td align=''
     @ ''"right" style="vertical-align:middle;">\<newline>                <span''
     @ '' style="display:inline-block;padding:4px 12px;\<newline>              ''
     @ ''               background:''\<close>

definition html_doc_meta :: string where
  \<open>html_doc_meta =
     '';\<newline>                             font-size:11px;font-weight:600''
     @ '';border-radius:20px;\<newline>                             letter-spac''
     @ ''ing:0.3px;">COMPLETED</span>\<newline>              </td>\<newline>   ''
     @ ''         </tr>\<newline>          </table>\<newline>        </td></tr>''
     @ ''\<newline>\<newline>        <!-- ''
     @ [CHR 0xE5, CHR 0x88, CHR 0x86, CHR 0xE5, CHR 0x89, CHR 0xB2, CHR 0xE7, CHR 0xBA, CHR 0xBF]
     @ '' -->\<newline>        <tr><td style="padding:0 24px;">\<newline>      ''
     @ ''    <hr style="border:none;border-top:1px solid #E5E7EB;margin:0;">''
     @ ''\<newline>        </td></tr>\<newline>\<newline>        <!-- ''
     @ [CHR 0xE5, CHR 0x85, CHR 0x83, CHR 0xE6, CHR 0x95, CHR 0xB0, CHR 0xE6, CHR 0x8D, CHR 0xAE]
     @ '' -->\<newline>        <tr><td style="padding:16px 24px;">\<newline>   ''
     @ ''       <table width="100%" cellpadding="0" cellspacing="0"\<newline>  ''
     @ ''               style="border-collapse:collapse;background:#F9FAFB;''
     @ ''\<newline>                        border-radius:8px;border:1px solid #''
     @ ''E5E7EB;">\<newline>            ''\<close>

definition html_doc_conversation :: string where
  \<open>html_doc_conversation =
     ''\<newline>          </table>\<newline>        </td></tr>\<newline>''
     @ ''\<newline>        <!-- ''
     @ [CHR 0xE5, CHR 0xAF, CHR 0xB9, CHR 0xE8, CHR 0xAF, CHR 0x9D, CHR 0xE5, CHR 0x8C, CHR 0xBA, CHR 0xE5, CHR 0x9F, CHR 0x9F, CHR 0xE6, CHR 0xA0, CHR 0x87, CHR 0xE9, CHR 0xA2, CHR 0x98]
     @ '' -->\<newline>        <tr><td style="padding:8px 24px 12px;">''
     @ ''\<newline>          <span style="font-size:12px;font-weight:600;color:''
     @ ''#6B7280;\<newline>                       text-transform:uppercase;lett''
     @ ''er-spacing:0.5px;">\<newline>            Conversation</span>\<newline>''
     @ ''        </td></tr>\<newline>\<newline>        <!-- ''
     @ [CHR 0xE5, CHR 0xAF, CHR 0xB9, CHR 0xE8, CHR 0xAF, CHR 0x9D, CHR 0xE5, CHR 0x86, CHR 0x85, CHR 0xE5, CHR 0xAE, CHR 0xB9]
     @ '' -->\<newline>        ''\<close>

definition html_doc_footer :: string where
  \<open>html_doc_footer =
     ''\<newline>\<newline>        <!-- ''
     @ [CHR 0xE5, CHR 0xBA, CHR 0x95, CHR 0xE9, CHR 0x83, CHR 0xA8]
     @ '' -->\<newline>        <tr><td style="padding:16px 24px;background:#F9F''
     @ ''AFB;\<newline>                       border-top:1px solid #E5E7EB;">''
     @ ''\<newline>          <table width="100%" cellpadding="0" cellspacing="0''
     @ ''"\<newline>                 style="border-collapse:collapse;">''
     @ ''\<newline>            <tr>\<newline>              <td style="font-size''
     @ '':11px;color:#9CA3AF;">\<newline>                AI Task Notify''
     @ ''\<newline>              </td>\<newline>              <td align="right"''
     @ '' style="font-size:11px;color:#9CA3AF;">\<newline>                ''\<close>

definition html_doc_tail :: string where
  \<open>html_doc_tail =
     ''\<newline>              </td>\<newline>            </tr>\<newline>    ''
     @ ''      </table>\<newline>        </td></tr>\<newline>\<newline>      </''
     @ ''table>\<newline>\<newline>      <!-- ''
     @ [CHR 0xE9, CHR 0xA1, CHR 0xB5, CHR 0xE8, CHR 0x84, CHR 0x9A]
     @ '' -->\<newline>      <table width="640" cellpadding="0" cellspacing="0"''
     @ ''\<newline>             style="border-collapse:collapse;">\<newline>   ''
     @ ''     <tr><td align="center"\<newline>                style="padding:16''
     @ ''px 0;font-size:11px;color:#9CA3AF;">\<newline>          ''
     @ [CHR 0xE6, CHR 0xAD, CHR 0xA4, CHR 0xE9, CHR 0x82, CHR 0xAE, CHR 0xE4, CHR 0xBB, CHR 0xB6, CHR 0xE7, CHR 0x94, CHR 0xB1, CHR 0xE7, CHR 0xB3, CHR 0xBB, CHR 0xE7, CHR 0xBB, CHR 0x9F, CHR 0xE8, CHR 0x87, CHR 0xAA, CHR 0xE5, CHR 0x8A, CHR 0xA8, CHR 0xE7, CHR 0x94, CHR 0x9F, CHR 0xE6, CHR 0x88, CHR 0x90, CHR 0xEF, CHR 0xBC, CHR 0x8C, CHR 0xE8, CHR 0xAF, CHR 0xB7, CHR 0xE5, CHR 0x8B, CHR 0xBF, CHR 0xE7, CHR 0x9B, CHR 0xB4, CHR 0xE6, CHR 0x8E, CHR 0xA5, CHR 0xE5, CHR 0x9B, CHR 0x9E, CHR 0xE5, CHR 0xA4, CHR 0x8D]
     @ ''\<newline>        </td></tr>\<newline>      </table>\<newline>''
     @ ''\<newline>    </td></tr>\<newline>  </table>\<newline></body>''
     @ ''\<newline></html>''\<close>

definition html_document ::
  "string \<times> string \<times> string \<Rightarrow> string \<Rightarrow> string \<Rightarrow> string \<Rightarrow> string \<Rightarrow> string" where
  "html_document palette title meta_html conversation_html now =
    (case palette of
       (accent, accent_light, accent_dark) \<Rightarrow>
         html_doc_head @ accent
         @ html_doc_title @ escape_html title
         @ html_doc_badge @ accent_light @ '';color:'' @ accent_dark
         @ html_doc_meta @ meta_html
         @ html_doc_conversation @ conversation_html
         @ html_doc_footer @ now
         @ html_doc_tail)"

text \<open>
  \<open>build_email_html\<close>. Only the extraction can raise; it is run when the payload is a
  dict.
\<close>

definition build_email_html :: "string \<Rightarrow> string \<Rightarrow> string \<Rightarrow> json \<Rightarrow> error + string" where
  "build_email_html now title source data =
     and_then (case data of JObj d \<Rightarrow> extract_conversation data source | _ \<Rightarrow> Inr [])
       (\<lambda>conversation.
          Inr (html_document (theme title source) title
                 (concat (map meta_row (meta_rows now data)))
                 (if concat (map message_card conversation) \<noteq> []
                  then concat (map message_card conversation)
                  else raw_block (escape_html
                         (case data of JObj d \<Rightarrow> json_dumps data | _ \<Rightarrow> py_str data)))
                 now))"


section \<open>Sending the mail\<close>

text \<open>
  The multipart message handed to the server: its headers and its two parts. The MIME
  encoding of \<open>msg.as_string()\<close> is left to the library. Creating the multipart
  message, assigning its headers and attaching a part do not raise.
\<close>

record mime_message =
  subject :: string
  from_addr :: string
  to_addr :: string
  plain_part :: string
  html_part :: string

text \<open>
  \<open>MIMEText(text, subtype, "utf-8")\<close> encodes the text and raises
  \<open>UnicodeEncodeError\<close> when it cannot, which happens for a text holding a lone
  surrogate (\<open>json.loads\<close> returns one for an escaped half of a surrogate pair). The
  call is a parameter of \<open>send_email\<close>: given the text and the subtype, it tells whether
  the call raises.
\<close>

type_synonym mime_library = "string \<Rightarrow> string \<Rightarrow> error option"

text \<open>
  What CPython does. A lone surrogate is carried here as its three bytes \<open>ED\<close>,
  \<open>A0..BF\<close>, \<open>80..BF\<close> (well-formed UTF-8 has only \<open>80..9F\<close> after \<open>ED\<close>). The
  library encodes with the \<open>surrogateescape\<close> handler, which lets U+DC80 to U+DCFF pass
  (second byte \<open>B2\<close> or \<open>B3\<close>); every other lone surrogate raises.
\<close>

fun has_lone_surrogate :: "string \<Rightarrow> bool" where
  "has_lone_surrogate (a # b # s) =
     ((a = CHR 0xED \<and> (160::nat) \<le> of_char b \<and> b \<noteq> CHR 0xB2 \<and> b \<noteq> CHR 0xB3)
      \<or> has_lone_surrogate (b # s))"
| "has_lone_surrogate s = False"

definition utf8_mime_text :: mime_library where
  "utf8_mime_text text subtype =
    (if has_lone_surrogate text then Some UnicodeEncodeError else None)"

text \<open>
  The calls of the SMTP session. The server is a parameter: given the calls made so far
  and the next call, it tells whether that call raises. The calls made (the one that raised
  included) are recorded in a trace, so that "no connection was attempted" can be stated. The
  10-second timeout is one of the ways a call can raise.
\<close>

datatype smtp_op =
    SMTP_SSL string int
  | SMTP string int
  | Starttls
  | Login string string
  | Sendmail string "string list" mime_message
  | Quit

type_synonym smtp_server = "smtp_op list \<Rightarrow> smtp_op \<Rightarrow> error option"

text \<open>
  The \<open>try\<close> block of \<open>send_email\<close> (source lines 447 to 460): the calls in order, ended
  by the first one that raises; \<open>except Exception\<close> turns that into \<open>False\<close>.
\<close>

fun smtp_session :: "smtp_server \<Rightarrow> smtp_op list \<Rightarrow> smtp_op list \<Rightarrow> bool \<times> smtp_op list" where
  "smtp_session server [] trace = (True, trace)"
| "smtp_session server (call # calls) trace =
     (case server trace call of
        Some e \<Rightarrow> (False, trace @ [call])
      | None \<Rightarrow> smtp_session server calls (trace @ [call]))"

text \<open>
  \<open>send_email\<close>. Before the \<open>try\<close> block it reads the settings, converts the port
  (line 431), builds the plain part (line 442), the HTML text (line 444) and the HTML part
  (line 445); an exception of any of these steps leaves \<open>send_email\<close>.
\<close>

definition send_email ::
  "(string \<rightharpoonup> string) \<Rightarrow> smtp_server \<Rightarrow> mime_library \<Rightarrow> string \<Rightarrow>
   (string \<rightharpoonup> string) \<Rightarrow> string \<Rightarrow> string \<Rightarrow> string \<Rightarrow> json \<Rightarrow>
   smtp_op list \<Rightarrow> (error + bool) \<times> smtp_op list" where
  "send_email environ server mime_text now env title content source data trace =
    (let smtp_host = get_config environ env ''SMTP_HOST'' [];
         smtp_user = get_config environ env ''SMTP_USER'' [];
         smtp_password = get_config environ env ''SMTP_PASSWORD'' [];
         email_from = get_config environ env ''EMAIL_FROM'' [];
         email_to = get_config environ env ''EMAIL_TO'' []
     in if smtp_host = [] \<or> smtp_user = [] \<or> smtp_password = [] \<or> email_from = []
           \<or> email_to = []
        then (Inr False, trace)
        else
          (case py_int (get_config environ env ''SMTP_PORT'' ''465'') of
             Inl e \<Rightarrow> (Inl e, trace)
           | Inr smtp_port \<Rightarrow>
               (let use_ssl = (py_lower (get_config environ env ''SMTP_USE_SSL'' ''true'') = ''true'');
                    recipients = map py_strip
                                   (filter (\<lambda>e. py_strip e \<noteq> []) (split_on CHR '','' email_to))
                in case mime_text content ''plain'' of
                     Some e \<Rightarrow> (Inl e, trace)
                   | None \<Rightarrow>
                  (case build_email_html now title source (if truthy data then data else JObj []) of
                     Inl e \<Rightarrow> (Inl e, trace)
                   | Inr html_content \<Rightarrow>
                  (case mime_text html_content ''html'' of
                     Some e \<Rightarrow> (Inl e, trace)
                   | None \<Rightarrow>
                       (case smtp_session server
                               ((if use_ssl then [SMTP_SSL smtp_host smtp_port]
                                 else [SMTP smtp_host smtp_port, Starttls])
                                @ [Login smtp_user smtp_password,
                                   Sendmail email_from recipients
                                     \<lparr>subject = title, from_addr = email_from,
                                      to_addr = join '', '' recipients,
                                      plain_part = content, html_part = html_content\<rparr>,
                                   Quit])
                               trace of
                          (ok, trace') \<Rightarrow> (Inr ok, trace')))))))"


section \<open>The dispatcher\<close>








section \<open>Input and the main program\<close>

text \<open>
  \<open>parse_input\<close>. Its inputs are parameters: \<open>sys.argv\<close>, whether standard input is a
  terminal, and the text read from it. \<open>json.loads\<close> is a parameter too (\<open>None\<close> for a
  text that raises \<open>JSONDecodeError\<close>). The payload \<open>None\<close> of the result is \<open>JNull\<close>.
\<close>

definition read_stdin ::
  "(string \<Rightarrow> json option) \<Rightarrow> bool \<Rightarrow> string \<Rightarrow> string \<Rightarrow> json \<Rightarrow> json \<Rightarrow> string \<times> json \<times> json" where
  "read_stdin json_loads stdin_isatty stdin_data source event_type data =
    (if \<not> truthy data \<and> \<not> stdin_isatty then
       (if py_strip stdin_data \<noteq> [] then
          (case json_loads stdin_data of
             None \<Rightarrow> (source, event_type, data)
           | Some parsed \<Rightarrow> (''claude-code'', JStr ''stop'', parsed))
        else (source, event_type, data))
     else (source, event_type, data))"

definition parse_input ::
  "(string \<Rightarrow> json option) \<Rightarrow> string list \<Rightarrow> bool \<Rightarrow> string \<Rightarrow> error + string \<times> json \<times> json" where
  "parse_input json_loads argv stdin_isatty stdin_data =
    (if length argv > 1 then
       (case json_loads (argv ! 1) of
          None \<Rightarrow> Inr (read_stdin json_loads stdin_isatty stdin_data ''unknown'' (JStr []) (JObj []))
        | Some data \<Rightarrow>
            and_then (py_get data ''type'' (JStr [])) (\<lambda>event_type.
              if event_type \<noteq> JStr ''agent-turn-complete''
              then Inr (''codex'', event_type, JNull)
              else Inr (read_stdin json_loads stdin_isatty stdin_data ''codex'' event_type data)))
     else Inr (read_stdin json_loads stdin_isatty stdin_data ''unknown'' (JStr []) (JObj [])))"

text \<open>Everything outside the program that \<open>main\<close> reads or calls.\<close>

record world =
  w_environ :: "string \<rightharpoonup> string"
  w_env_file :: "string option"
  w_argv :: "string list"
  w_stdin_isatty :: bool
  w_stdin_data :: string
  w_json_loads :: "string \<Rightarrow> json option"
  w_clock :: string
  w_smtp :: smtp_server
  w_mime_text :: mime_library



section \<open>Dispatch and exit codes, as the specification words them\<close>





definition parsed :: "world \<Rightarrow> error + string \<times> json \<times> json" where
  "parsed w = parse_input (w_json_loads w) (w_argv w) (w_stdin_isatty w) (w_stdin_data w)"









section \<open>Sample configurations and worlds\<close>

definition sample_env :: "string \<rightharpoonup> string" where
  "sample_env =
     [''NOTIFY_CHANNELS'' \<mapsto> ''email'',
      ''SMTP_HOST'' \<mapsto> ''smtp.example.com'',
      ''SMTP_USER'' \<mapsto> ''bot'',
      ''SMTP_PASSWORD'' \<mapsto> ''secret'',
      ''EMAIL_FROM'' \<mapsto> ''bot@example.com'',
      ''EMAIL_TO'' \<mapsto> ''dev@example.com'']"


definition no_password_env :: "string \<rightharpoonup> string" where
  "no_password_env = sample_env(''SMTP_PASSWORD'' \<mapsto> [])"


text \<open>A text that is one lone surrogate, U+D83D.\<close>

definition lone_surrogate :: string where
  "lone_surrogate = [CHR 0xED, CHR 0xA0, CHR 0xBD]"

text \<open>A server on which every call succeeds, and one that cannot be reached.\<close>

definition willing_server :: smtp_server where
  "willing_server trace call = None"


text \<open>What \<open>json.loads\<close> returns on the texts of the examples.\<close>

definition turn_text :: string where
  \<open>turn_text =
     ''{"type":"agent-turn-complete","input-messages":["fix bug"],"last-assis''
     @ ''tant-message":"done"}''\<close>

definition turn_payload :: json where
  "turn_payload =
     JObj [(''type'', JStr ''agent-turn-complete''),
           (''input-messages'', JArr [JStr ''fix bug'']),
           (''last-assistant-message'', JStr ''done'')]"

definition sample_loads :: "string \<Rightarrow> json option" where
  "sample_loads s =
    (if s = ''[1, 2]'' then Some (JArr [JInt 1, JInt 2])
     else if s = turn_text then Some turn_payload
     else None)"

definition array_argv :: "string list" where
  "array_argv = [''notify.py'', ''[1, 2]'']"






section \<open>Facts about the helper functions\<close>

lemma py_strip_Nil [simp]: "py_strip [] = []"
  by (simp add: py_strip_def)

lemma join_eq_Nil_iff:
  "list_all (\<lambda>t. t \<noteq> []) xs \<Longrightarrow> join sep xs = [] \<longleftrightarrow> xs = []"
  by (induction sep xs rule: join.induct) auto

lemma and_then_Inr [simp]: "and_then (Inr x) f = f x"
  by (simp add: and_then_def)

lemma and_then_Inl [simp]: "and_then (Inl e) f = Inl e"
  by (simp add: and_then_def)

lemma dict_get_eq_JStr:
  "s \<noteq> [] \<Longrightarrow> dict_get d k (JStr []) = JStr s \<longleftrightarrow> map_of d k = Some (JStr s)"
  "dict_get d k JNull = JStr s \<longleftrightarrow> map_of d k = Some (JStr s)"
  by (auto simp: dict_get_def split: option.splits)

lemma is_text_fragment_simps [simp]:
  "is_text_fragment (JObj d) \<longleftrightarrow> map_of d ''type'' = Some (JStr ''text'')"
  "\<not> is_text_fragment JNull" "\<not> is_text_fragment (JBool b)" "\<not> is_text_fragment (JInt i)"
  "\<not> is_text_fragment (JFloat r)" "\<not> is_text_fragment (JStr s)" "\<not> is_text_fragment (JArr xs)"
  by (simp_all add: is_text_fragment_def)

lemma str_strip_wf_fragment:
  assumes "wf_fragment (JObj d)" and "map_of d ''type'' = Some (JStr ''text'')"
  shows "str_strip (dict_get d ''text'' (JStr [])) = Inr (fragment_text (JObj d))"
proof (cases "map_of d ''text''")
  case None
  then show ?thesis
    by (simp add: dict_get_def str_strip_def fragment_text_def)
next
  case (Some v)
  with assms obtain s where "v = JStr s"
    by (cases v) (simp_all add: wf_fragment_def)
  with Some show ?thesis
    by (simp add: dict_get_def str_strip_def fragment_text_def)
qed

section \<open>The extractor on a Claude Code transcript\<close>

lemma text_fragments_wf:
  "list_all wf_fragment cs \<Longrightarrow>
   text_fragments cs texts =
     Inr (texts @ filter (\<lambda>t. t \<noteq> []) (map fragment_text (filter is_text_fragment cs)))"
proof (induction cs arbitrary: texts)
  case Nil
  show ?case by simp
next
  case (Cons c cs)
  then have wf: "wf_fragment c" and rest: "list_all wf_fragment cs"
    by simp_all
  note IH = Cons.IH [OF rest]
  show ?case
  proof (cases c)
    case (JObj d)
    show ?thesis
    proof (cases "map_of d ''type'' = Some (JStr ''text'')")
      case True
      with wf JObj show ?thesis
        by (simp add: IH dict_get_eq_JStr str_strip_wf_fragment)
    next
      case False
      with JObj show ?thesis
        by (simp add: IH dict_get_eq_JStr)
    qed
  qed (simp_all add: IH)
qed

lemma filter_nonempty_all:
  "list_all (\<lambda>t. t \<noteq> []) (filter (\<lambda>t. t \<noteq> []) ts)"
  by (simp add: list_all_iff)

lemma message_texts_wf:
  assumes "wf_message msg"
  shows "\<exists>texts. message_texts msg = Inr texts \<and> list_all (\<lambda>t. t \<noteq> []) texts
           \<and> derived_text msg = join [newline, newline] texts"
proof (cases msg)
  case (JObj d)
  show ?thesis
  proof (cases "map_of d ''content''")
    case None
    with JObj show ?thesis
      by (simp add: message_texts_def derived_text_def dict_get_def py_iter_def)
  next
    case (Some c)
    with assms JObj obtain cs where c: "c = JArr cs" and wf: "list_all wf_fragment cs"
      by (cases c) (simp_all add: wf_message_def)
    from JObj Some c show ?thesis
      by (simp add: message_texts_def derived_text_def dict_get_def py_iter_def
          text_fragments_wf [OF wf] filter_nonempty_all)
  qed
qed (simp_all add: message_texts_def derived_text_def)

lemma message_texts_absent:
  "message_texts (JObj []) = Inr []" "derived_text JNull = []"
  by (simp_all add: message_texts_def derived_text_def dict_get_def py_iter_def)

lemma claude_loop_wf:
  "list_all wf_entry items \<Longrightarrow>
   claude_loop items messages = Inr (messages @ List.map_filter transcript_message items)"
proof (induction items arbitrary: messages)
  case Nil
  show ?case by (simp add: List.map_filter_simps)
next
  case (Cons item items)
  then have wf: "wf_entry item" and rest: "list_all wf_entry items"
    by simp_all
  note IH = Cons.IH [OF rest]
  from wf obtain d where item: "item = JObj d"
    by (cases item) (simp_all add: wf_entry_def)
  define msg where "msg = dict_get d ''message'' (JObj [])"
  have "\<exists>texts. message_texts msg = Inr texts \<and> list_all (\<lambda>t. t \<noteq> []) texts
           \<and> derived_text (item_field item ''message'') = join [newline, newline] texts"
  proof (cases "map_of d ''message''")
    case None
    with item show ?thesis
      by (simp add: msg_def dict_get_def item_field_def message_texts_absent)
  next
    case (Some m)
    with wf item have "wf_message m"
      by (simp add: wf_entry_def)
    from message_texts_wf [OF this] Some item show ?thesis
      by (simp add: msg_def dict_get_def item_field_def)
  qed
  then obtain texts where
    texts: "message_texts msg = Inr texts"
    and ne: "list_all (\<lambda>t. t \<noteq> []) texts"
    and dt: "derived_text (item_field item ''message'') = join [newline, newline] texts"
    by blast
  have ty: "item_field item ''type'' = JStr ''human'' \<longleftrightarrow> dict_get d ''type'' (JStr []) = JStr ''human''"
    "item_field item ''type'' = JStr ''assistant'' \<longleftrightarrow> dict_get d ''type'' (JStr []) = JStr ''assistant''"
    using item by (auto simp: item_field_def dict_get_def split: option.splits)
  have empty: "join [newline, newline] texts = [] \<longleftrightarrow> texts = []"
    by (rule join_eq_Nil_iff [OF ne])
  have step: "claude_loop (item # items) messages =
      (if dict_get d ''type'' (JStr []) \<noteq> JStr ''human'' \<and> dict_get d ''type'' (JStr []) \<noteq> JStr ''assistant''
       then claude_loop items messages
       else claude_loop items
             (if texts \<noteq> []
              then messages @ [\<lparr>role = (if dict_get d ''type'' (JStr []) = JStr ''human'' then ''user'' else ''assistant''),
                                 mtext = join [newline, newline] texts\<rparr>]
              else messages))"
    using item texts by (simp add: py_get_def msg_def)
  have tm: "transcript_message item =
      (if dict_get d ''type'' (JStr []) = JStr ''human'' \<and> texts \<noteq> []
         then Some \<lparr>role = ''user'', mtext = join [newline, newline] texts\<rparr>
       else if dict_get d ''type'' (JStr []) = JStr ''assistant'' \<and> texts \<noteq> []
         then Some \<lparr>role = ''assistant'', mtext = join [newline, newline] texts\<rparr>
       else None)"
    by (simp add: transcript_message_def Let_def dt ty empty)
  show ?case
    unfolding step by (simp add: IH tm List.map_filter_simps)
qed

text \<open>
  C5. For a Claude Code payload whose \<open>transcript\<close> is an array of well-formed entries,
  \<open>extract_conversation\<close> returns exactly the messages of the entries typed \<open>human\<close> or
  \<open>assistant\<close> whose derived text is not empty, in the order of the transcript, \<open>human\<close>
  as role \<open>user\<close> and \<open>assistant\<close> as role \<open>assistant\<close>; every other entry is left out.
\<close>

theorem extract_conversation_claude_code:
  assumes "map_of d ''transcript'' = Some (JArr items)"
    and "list_all wf_entry items"
  shows "extract_conversation (JObj d) ''claude-code''
           = Inr (List.map_filter transcript_message items)"
  using assms
  by (simp add: extract_conversation_def py_get_def dict_get_def py_iter_def claude_loop_wf)

theorem extract_conversation_claude_code_witness:
  "map_of claude_sample ''transcript'' = Some (JArr claude_sample_items)
   \<and> list_all wf_entry claude_sample_items
   \<and> extract_conversation (JObj claude_sample) ''claude-code''
       = Inr [\<lparr>role = ''user'', mtext = ''hi''\<rparr>,
              \<lparr>role = ''assistant'', mtext = ''hello'' @ [newline, newline] @ ''done''\<rparr>]"
proof -
  have h1: "map_of claude_sample ''transcript'' = Some (JArr claude_sample_items)"
    by (simp add: claude_sample_def)
  have h2: "list_all wf_entry claude_sample_items"
    by (simp add: claude_sample_items_def wf_entry_def wf_message_def wf_fragment_def)
  have "List.map_filter transcript_message claude_sample_items
     = [\<lparr>role = ''user'', mtext = ''hi''\<rparr>,
        \<lparr>role = ''assistant'', mtext = ''hello'' @ [newline, newline] @ ''done''\<rparr>]"
    by (simp add: claude_sample_items_def transcript_message_def item_field_def dict_get_def
        derived_text_def fragment_text_def py_strip_def py_isspace_def Let_def)
  with extract_conversation_claude_code [OF h1 h2] h1 h2 show ?thesis
    by simp
qed

section \<open>The extractor on a Codex payload\<close>

lemma codex_fragments_wf:
  "list_all wf_fragment cs \<Longrightarrow>
   codex_fragments cs texts =
     Inr (texts @ filter (\<lambda>t. t \<noteq> []) (map codex_fragment_text cs))"
proof (induction cs arbitrary: texts)
  case Nil
  show ?case by simp
next
  case (Cons c cs)
  then have wf: "wf_fragment c" and rest: "list_all wf_fragment cs"
    by simp_all
  note IH = Cons.IH [OF rest]
  show ?case
  proof (cases c)
    case (JObj d)
    show ?thesis
    proof (cases "map_of d ''type'' = Some (JStr ''text'')")
      case True
      with wf JObj show ?thesis
        by (simp add: IH dict_get_eq_JStr str_strip_wf_fragment codex_fragment_text_def
            fragment_text_def)
    next
      case False
      with JObj show ?thesis
        by (simp add: IH dict_get_eq_JStr codex_fragment_text_def)
    qed
  qed (simp_all add: IH codex_fragment_text_def)
qed

lemma codex_entry_wf:
  assumes "wf_codex_entry item"
  shows "codex_entry r item messages = Inr (messages @ codex_message r item)"
proof (cases item)
  case (JObj d)
  show ?thesis
  proof (cases "map_of d ''content''")
    case None
    with JObj show ?thesis
      by (simp add: codex_entry_def codex_message_def codex_text_def dict_get_def)
  next
    case (Some c)
    show ?thesis
    proof (cases c)
      case (JArr cs)
      with assms JObj Some have wf: "list_all wf_fragment cs"
        by (simp add: wf_codex_entry_def)
      have "join [newline, newline] (filter (\<lambda>t. t \<noteq> []) (map codex_fragment_text cs)) = []
          \<longleftrightarrow> filter (\<lambda>t. t \<noteq> []) (map codex_fragment_text cs) = []"
        by (rule join_eq_Nil_iff [OF filter_nonempty_all])
      with JObj Some JArr show ?thesis
        by (simp add: codex_entry_def codex_message_def codex_text_def dict_get_def
            codex_fragments_wf [OF wf])
    qed (use JObj Some in \<open>simp_all add: codex_entry_def codex_message_def codex_text_def dict_get_def\<close>)
  qed
qed (simp_all add: codex_entry_def codex_message_def codex_text_def)

lemma codex_inputs_wf:
  "list_all wf_codex_entry items \<Longrightarrow>
   codex_inputs items messages = Inr (messages @ concat (map (codex_message ''user'') items))"
  by (induction items arbitrary: messages) (simp_all add: codex_entry_wf)

text \<open>
  C1, as amended. For a Codex payload whose \<open>input-messages\<close> is absent or an array, with
  string texts in its text fragments, \<open>extract_conversation\<close> returns one \<open>user\<close>
  message for each entry of \<open>input-messages\<close> that yields non-empty trimmed text, in the
  original order, followed by the \<open>assistant\<close> message derived from
  \<open>last-assistant-message\<close> when that yields non-empty text (at most one, and none
  otherwise); when both yield nothing the result is the single \<open>assistant\<close> message
  holding the pretty-printed payload. The result is never empty.
\<close>

theorem extract_conversation_codex:
  assumes "dict_get d ''input-messages'' (JArr []) = JArr items"
    and "list_all wf_codex_entry items"
    and "wf_codex_entry (dict_get d ''last-assistant-message'' (JStr []))"
  shows "extract_conversation (JObj d) ''codex'' = Inr (codex_conversation d items)
    \<and> codex_conversation d items \<noteq> []
    \<and> length (codex_message ''assistant'' (dict_get d ''last-assistant-message'' (JStr []))) \<le> 1"
proof -
  have "extract_conversation (JObj d) ''codex'' = Inr (codex_conversation d items)"
    using assms(1)
    by (simp add: extract_conversation_def py_get_def py_iter_def codex_inputs_wf [OF assms(2)]
        codex_entry_wf [OF assms(3)] codex_conversation_def Let_def)
  moreover have "codex_conversation d items \<noteq> []"
    by (simp add: codex_conversation_def Let_def)
  moreover have "length (codex_message ''assistant'' (dict_get d ''last-assistant-message'' (JStr []))) \<le> 1"
    by (simp add: codex_message_def)
  ultimately show ?thesis by simp
qed

theorem extract_conversation_codex_witness:
  "dict_get codex_sample ''input-messages'' (JArr []) = JArr codex_sample_items
   \<and> list_all wf_codex_entry codex_sample_items
   \<and> wf_codex_entry (dict_get codex_sample ''last-assistant-message'' (JStr []))
   \<and> extract_conversation (JObj codex_sample) ''codex''
       = Inr [\<lparr>role = ''user'', mtext = ''fix bug''\<rparr>,
              \<lparr>role = ''user'', mtext = ''and test''\<rparr>,
              \<lparr>role = ''assistant'', mtext = ''done''\<rparr>]"
proof -
  have h1: "dict_get codex_sample ''input-messages'' (JArr []) = JArr codex_sample_items"
    by (simp add: codex_sample_def dict_get_def)
  have h2: "list_all wf_codex_entry codex_sample_items"
    by (simp add: codex_sample_items_def wf_codex_entry_def wf_fragment_def)
  have h3: "wf_codex_entry (dict_get codex_sample ''last-assistant-message'' (JStr []))"
    by (simp add: codex_sample_def dict_get_def wf_codex_entry_def)
  have "codex_conversation codex_sample codex_sample_items
     = [\<lparr>role = ''user'', mtext = ''fix bug''\<rparr>,
        \<lparr>role = ''user'', mtext = ''and test''\<rparr>,
        \<lparr>role = ''assistant'', mtext = ''done''\<rparr>]"
    by (simp add: codex_conversation_def codex_sample_def codex_sample_items_def
        codex_message_def codex_text_def codex_fragment_text_def dict_get_def
        py_strip_def py_isspace_def Let_def)
  with extract_conversation_codex [OF h1 h2 h3] h1 h2 h3 show ?thesis
    by simp
qed

text \<open>
  The claim as stated fails where \<open>input-messages\<close> yields a message and
  \<open>last-assistant-message\<close> is missing: the result holds no \<open>assistant\<close> message.
\<close>

theorem extract_conversation_codex_no_reply:
  "extract_conversation (JObj codex_no_reply) ''codex'' = Inr [\<lparr>role = ''user'', mtext = ''hi''\<rparr>]
   \<and> assistant_messages [\<lparr>role = ''user'', mtext = ''hi''\<rparr>] = []"
  by (simp add: extract_conversation_def codex_no_reply_def py_get_def dict_get_def py_iter_def
      codex_entry_def py_strip_def py_isspace_def assistant_messages_def)

section \<open>Unclosed code fences\<close>

lemma html_lines_append:
  "html_lines (xs @ ys) html_parts in_code code_lines =
     (case html_lines xs html_parts in_code code_lines of
        (parts', in_code', code') \<Rightarrow> html_lines ys parts' in_code' code')"
  by (induction xs arbitrary: html_parts in_code code_lines) simp_all

lemma html_lines_in_code:
  "list_all (\<lambda>l. \<not> is_fence l) ls \<Longrightarrow>
   html_lines ls html_parts True code_lines = (html_parts, True, code_lines @ ls)"
  by (induction ls arbitrary: code_lines) simp_all

lemma html_lines_code_empty_outside:
  "html_lines xs html_parts in_code code_lines = (parts', in_code', code') \<Longrightarrow>
   in_code \<or> code_lines = [] \<Longrightarrow> in_code' \<or> code' = []"
proof (induction xs arbitrary: html_parts in_code code_lines)
  case Nil
  then show ?case by simp
next
  case (Cons line lines)
  show ?case
  proof (cases "is_fence line")
    case True
    show ?thesis
    proof (cases in_code)
      case True
      with \<open>is_fence line\<close> Cons.prems(1)
      have "html_lines lines (html_parts @ [pre_block code_lines]) False [] = (parts', in_code', code')"
        by simp
      from Cons.IH [OF this] show ?thesis by simp
    next
      case False
      with \<open>is_fence line\<close> Cons.prems(1)
      have "html_lines lines html_parts True code_lines = (parts', in_code', code')"
        by simp
      from Cons.IH [OF this] show ?thesis by simp
    qed
  next
    case False
    show ?thesis
    proof (cases in_code)
      case True
      with \<open>\<not> is_fence line\<close> Cons.prems(1)
      have "html_lines lines html_parts True (code_lines @ [line]) = (parts', in_code', code')"
        by simp
      from Cons.IH [OF this] show ?thesis by simp
    next
      case False
      with \<open>\<not> is_fence line\<close> Cons.prems
      have "html_lines lines (html_parts @ [render_line line]) False [] = (parts', in_code', code')"
        by simp
      from Cons.IH [OF this] show ?thesis by simp
    qed
  qed
qed

text \<open>
  C6, as amended. Let the lines of a text be \<open>before\<close>, then a fence line met outside a
  code block, then \<open>after\<close>, no line of which is a fence. When at least one line follows
  the fence, \<open>_text_to_html\<close> ends with exactly one closed \<open>pre\<close> block for it, holding
  all the lines of \<open>after\<close>; when no line follows the fence, it produces no block for it.
\<close>

theorem text_to_html_unclosed_fence:
  assumes "split_on newline text = before @ fence # after"
    and "html_lines before [] False [] = (html_parts, False, code_lines)"
    and "is_fence fence"
    and "list_all (\<lambda>l. \<not> is_fence l) after"
  shows "text_to_html text =
           join [newline] (if after = [] then html_parts else html_parts @ [pre_block after])"
proof -
  from html_lines_code_empty_outside [OF assms(2)] have empty: "code_lines = []"
    by simp
  have "html_lines (before @ fence # after) [] False [] = (html_parts, True, after)"
    using assms(2,3) html_lines_in_code [OF assms(4), of html_parts "[]"] empty
    by (simp add: html_lines_append)
  with assms(1) show ?thesis
    by (simp add: text_to_html_def)
qed

theorem text_to_html_unclosed_fence_witness:
  "split_on newline fence_sample = [''see **this**''] @ '' ```py'' # [''x < 1'', '' y'']
   \<and> html_lines [''see **this**''] [] False [] = ([''see <strong>this</strong><br>''], False, [])
   \<and> is_fence '' ```py''
   \<and> list_all (\<lambda>l. \<not> is_fence l) [''x < 1'', '' y'']
   \<and> text_to_html fence_sample =
         ''see <strong>this</strong><br>'' @ [newline] @ pre_open @ ''x &lt; 1'' @ [newline]
           @ '' y</pre>''"
proof -
  have h1: "split_on newline fence_sample = [''see **this**''] @ '' ```py'' # [''x < 1'', '' y'']"
    by (simp add: fence_sample_def newline_def)
  have fence: "\<not> is_fence ''see **this**''"
    by (simp add: is_fence_def startswith_def py_strip_def py_isspace_def)
  have "bold_sub ''see **this**'' = ''see <strong>this</strong>''"
    by (simp add: bold_match_def newline_def)
  then have line: "render_line ''see **this**'' = ''see <strong>this</strong><br>''"
    by (simp add: render_line_def escape_html_def replace_chr_def py_strip_def py_isspace_def)
  have h2: "html_lines [''see **this**''] [] False [] = ([''see <strong>this</strong><br>''], False, [])"
    using fence line by simp
  have h3: "is_fence '' ```py''"
    by (simp add: is_fence_def startswith_def py_strip_def py_isspace_def)
  have h4: "list_all (\<lambda>l. \<not> is_fence l) [''x < 1'', '' y'']"
    by (simp add: is_fence_def startswith_def py_strip_def py_isspace_def)
  have "pre_block [''x < 1'', '' y''] = pre_open @ ''x &lt; 1'' @ [newline] @ '' y</pre>''"
    by (simp add: pre_block_def escape_html_def replace_chr_def newline_def)
  with text_to_html_unclosed_fence [OF h1 h2 h3 h4] h1 h2 h3 h4 show ?thesis
    by simp
qed

text \<open>
  The claim as stated fails when nothing follows the opening fence: the text consisting
  of a fence alone renders to the empty string, with no \<open>pre\<close> block.
\<close>

theorem text_to_html_lone_fence:
  "text_to_html ''```'' = []"
  by (simp add: text_to_html_def is_fence_def startswith_def py_strip_def py_isspace_def
      newline_def)

section \<open>The turns shown by the plain-text summary\<close>




lemma last_text_Nil [simp]: "last_text r [] = []"
  by (simp add: last_text_def)










section \<open>Payload shapes that raise\<close>

text \<open>
  C4. The claim that neither function ever raises fails on the code:
  \<open>format_message\<close> slices \<open>session_id\<close> without converting it to a string first, so a
  numeric \<open>session_id\<close> raises \<open>TypeError\<close>; and both functions call \<open>get\<close> on every
  transcript entry, so an entry that is not an object raises \<open>AttributeError\<close>.
\<close>

theorem format_message_extract_conversation_raise:
  "format_message sample_now ''claude-code'' (JStr ''stop'') (JObj [(''session_id'', JInt 12345)])
     = Inl TypeError
   \<and> extract_conversation (JObj [(''transcript'', JArr [JStr ''hello''])]) ''claude-code''
     = Inl AttributeError
   \<and> format_message sample_now ''claude-code'' (JStr ''stop'')
       (JObj [(''transcript'', JArr [JStr ''hello''])])
     = Inl AttributeError"
  by (simp add: format_message_def extract_conversation_def py_get_def dict_get_def py_iter_def
      py_slice_def)

section \<open>The email sender\<close>

text \<open>
  C7. When one of the five settings resolves to the empty string, \<open>send_email\<close> returns
  \<open>False\<close> and the trace of SMTP calls is unchanged: no connection was attempted.
\<close>

theorem send_email_missing_setting:
  assumes "get_config environ env ''SMTP_HOST'' [] = []
         \<or> get_config environ env ''SMTP_USER'' [] = []
         \<or> get_config environ env ''SMTP_PASSWORD'' [] = []
         \<or> get_config environ env ''EMAIL_FROM'' [] = []
         \<or> get_config environ env ''EMAIL_TO'' [] = []"
  shows "send_email environ server mime_text now env title content source data trace
           = (Inr False, trace)"
  using assms by (auto simp: send_email_def Let_def)

theorem send_email_missing_setting_witness:
  "get_config Map.empty no_password_env ''SMTP_PASSWORD'' [] = []
   \<and> send_email Map.empty willing_server utf8_mime_text sample_now no_password_env
        ''done'' ''text'' ''codex'' (JObj codex_sample) [] = (Inr False, [])"
proof -
  have h: "get_config Map.empty no_password_env ''SMTP_PASSWORD'' [] = []"
    by (simp add: get_config_def no_password_env_def)
  then have "get_config Map.empty no_password_env ''SMTP_HOST'' [] = []
         \<or> get_config Map.empty no_password_env ''SMTP_USER'' [] = []
         \<or> get_config Map.empty no_password_env ''SMTP_PASSWORD'' [] = []
         \<or> get_config Map.empty no_password_env ''EMAIL_FROM'' [] = []
         \<or> get_config Map.empty no_password_env ''EMAIL_TO'' [] = []"
    by simp
  from send_email_missing_setting [OF this] h show ?thesis
    by simp
qed





lemma sample_env_port:
  "py_int (get_config Map.empty sample_env ''SMTP_PORT'' ''465'') = Inr 465"
  by (simp add: get_config_def sample_env_def py_int_def py_strip_def py_isspace_def
      is_digit_def digits_value_def)



text \<open>
  So does the encoding of a part: a summary that is one lone surrogate raises
  \<open>UnicodeEncodeError\<close> at line 442, before the \<open>try\<close> block.
\<close>

lemma lone_surrogate_unencodable:
  "utf8_mime_text lone_surrogate subtype = Some UnicodeEncodeError"
  by (simp add: utf8_mime_text_def lone_surrogate_def)

lemma send_email_surrogate_raises:
  "send_email Map.empty willing_server utf8_mime_text sample_now sample_env
     ''done'' lone_surrogate ''codex'' (JObj codex_sample) [] = (Inl UnicodeEncodeError, [])"
proof -
  have settings: "get_config Map.empty sample_env ''SMTP_HOST'' [] \<noteq> []"
    "get_config Map.empty sample_env ''SMTP_USER'' [] \<noteq> []"
    "get_config Map.empty sample_env ''SMTP_PASSWORD'' [] \<noteq> []"
    "get_config Map.empty sample_env ''EMAIL_FROM'' [] \<noteq> []"
    "get_config Map.empty sample_env ''EMAIL_TO'' [] \<noteq> []"
    by (simp_all add: get_config_def sample_env_def)
  show ?thesis
    by (simp add: send_email_def Let_def settings sample_env_port lone_surrogate_unencodable)
qed


section \<open>The dispatcher\<close>








section \<open>The parser and the exit code\<close>

text \<open>
  C10. When the first command-line argument is valid JSON whose value is not an object,
  \<open>parse_input\<close> raises: \<open>data.get\<close> fails with \<open>AttributeError\<close>, which the handler
  for \<open>JSONDecodeError\<close> does not catch. It neither reads standard input nor returns an
  empty payload.
\<close>

theorem parse_input_non_object_argument:
  assumes "length argv > 1"
    and "json_loads (argv ! 1) = Some v"
    and "\<forall>d. v \<noteq> JObj d"
  shows "parse_input json_loads argv stdin_isatty stdin_data = Inl AttributeError"
  using assms by (cases v) (simp_all add: parse_input_def py_get_def)

theorem parse_input_non_object_argument_witness:
  "length array_argv > 1
   \<and> sample_loads (array_argv ! 1) = Some (JArr [JInt 1, JInt 2])
   \<and> (\<forall>d. JArr [JInt 1, JInt 2] \<noteq> JObj d)
   \<and> parse_input sample_loads array_argv False ''{}'' = Inl AttributeError"
proof -
  have h1: "length array_argv > 1"
    by (simp add: array_argv_def)
  have h2: "sample_loads (array_argv ! 1) = Some (JArr [JInt 1, JInt 2])"
    by (simp add: array_argv_def sample_loads_def)
  have h3: "\<forall>d. JArr [JInt 1, JInt 2] \<noteq> JObj d"
    by simp
  from parse_input_non_object_argument
      [where argv = array_argv and json_loads = sample_loads, OF h1 h2 h3] h1 h2 h3
  show ?thesis
    by simp
qed











end
